theory Spec2Isabelle
  imports Complex_Main
begin

section \<open>Data model of \<^verbatim>\<open>cities/models.py\<close>\<close>

text \<open>
  The module declares a geographic reference schema on top of an object-relational
  mapper: an abstract base class \<^verbatim>\<open>Place\<close> and the concrete classes
  \<^verbatim>\<open>Country\<close>, \<^verbatim>\<open>Region\<close>, \<^verbatim>\<open>Subregion\<close>, \<^verbatim>\<open>City\<close>, \<^verbatim>\<open>District\<close>
  and \<^verbatim>\<open>PostalCode\<close>. A row is modelled as a record; the abstract base is the
  root record and every concrete class extends it, as the classes do. A foreign key is
  modelled by the row it resolves to (a nullable one by an \<open>option\<close>), which is
  what the attribute access \<^verbatim>\<open>self.country\<close> hands to the code. The identifying
  columns and the relations are carried; the remaining scalar columns (population,
  currency, time zone and so on) are read by no function of the module.
\<close>

datatype Point = Point (point_x: real) (point_y: real)

record Place =
  name :: string
  slug :: string

record Country = Place +
  code :: string
  code3 :: string

record Region = Place +
  name_std :: string
  code :: string
  country :: Country

record Subregion = Place +
  name_std :: string
  code :: string
  region :: Region

record City = Place +
  name_std :: string
  location :: Point
  region :: "Region option"
  subregion :: "Subregion option"
  country :: Country

record District = Place +
  name_std :: string
  location :: Point
  city :: City

record PostalCode = Place +
  code :: string
  location :: Point
  country :: Country

text \<open>
  The exceptions that a call of \<^verbatim>\<open>nearest_to\<close> lets escape; the \<^verbatim>\<open>IndexError\<close> of
  an empty result is caught inside and never leaves.
\<close>

datatype error = FieldError | TypeError | OverflowError | AttributeError

section \<open>\<^verbatim>\<open>PlaceManager\<close>\<close>

text \<open>
  The manager classes that the module binds to \<^verbatim>\<open>objects\<close>: the framework's
  \<^verbatim>\<open>GeoManager\<close> (bound by \<^verbatim>\<open>PostalCode\<close>), \<^verbatim>\<open>PlaceManager\<close> (inherited from
  \<^verbatim>\<open>Place\<close> by \<^verbatim>\<open>City\<close> and \<^verbatim>\<open>District\<close>) and its subclasses
  \<^verbatim>\<open>RegionManager\<close> and \<^verbatim>\<open>SubregionManager\<close>. \<^verbatim>\<open>CountryManager\<close> overrides
  \<^verbatim>\<open>nearest_to\<close> and is modelled on its own below. \<open>has_nearest_to\<close> says whether
  the attribute \<^verbatim>\<open>nearest_to\<close> resolves on an instance of the class:
  \<^verbatim>\<open>GeoManager\<close> defines no such method.
\<close>

datatype manager_class = GeoManager | PlaceManager | RegionManager | SubregionManager

fun has_nearest_to :: "manager_class \<Rightarrow> bool" where
  "has_nearest_to GeoManager = False"
| "has_nearest_to PlaceManager = True"
| "has_nearest_to RegionManager = True"
| "has_nearest_to SubregionManager = True"

text \<open>
  A manager is bound to one model class. What the query code needs from it is its own
  class, the table (\<^verbatim>\<open>self.all()\<close>, in the order the database yields it) and whether
  the model class declares the geometry column \<^verbatim>\<open>location\<close>; \<open>location_field\<close> is
  the column accessor, \<open>None\<close> for a class without it. No class of the module has a
  geometry column of another name, so a class without \<^verbatim>\<open>location\<close> has no geometry
  column.
\<close>

record 'r manager =
  manager_class :: manager_class
  all_rows :: "'r list"
  location_field :: "('r \<Rightarrow> Point) option"

text \<open>
  \<^verbatim>\<open>D(mi=range_in_miles)\<close> converts its argument with \<^verbatim>\<open>float(value)\<close>. The
  docstring of \<^verbatim>\<open>nearest_to\<close> gives \<^verbatim>\<open>range_in_miles\<close> the type \<^verbatim>\<open>int\<close>, and
  Python's integers are unbounded: the conversion raises \<^verbatim>\<open>OverflowError\<close> when the
  integer rounds to a magnitude beyond the largest double, that is from
  \<open>2 ^ 1024 - 2 ^ 970\<close> on, and otherwise yields the integer rounded to 53 significant
  bits, ties to the even neighbour. Integers of magnitude up to \<open>2 ^ 53\<close> convert
  exactly.
\<close>

fun bit_length :: "nat \<Rightarrow> nat" where
  "bit_length n = (if n = 0 then 0 else Suc (bit_length (n div 2)))"

declare bit_length.simps [simp del]

definition round_half_even :: "nat \<Rightarrow> nat \<Rightarrow> nat" where
  "round_half_even a s =
     (let q = a div 2 ^ s; r = a mod 2 ^ s; half = 2 ^ (s - 1)
      in if half < r \<or> (r = half \<and> odd q) then q + 1 else q)"

definition float_of_int :: "int \<Rightarrow> error + real" where
  "float_of_int n =
     (if 2 ^ 1024 - 2 ^ 970 \<le> \<bar>n\<bar> then Inl OverflowError
      else
        let a = nat \<bar>n\<bar>; s = bit_length a - 53
        in if s = 0 then Inr (of_int n)
           else Inr (of_int (sgn n * int (round_half_even a s * 2 ^ s))))"

definition D_mi :: "int \<Rightarrow> error + real" where
  "D_mi range_in_miles = float_of_int range_in_miles"

text \<open>
  The geodesic distance between two points is computed by the spatial backend and is a
  parameter \<open>geodesic\<close> of every query below, in miles, as a real number; the
  backend's comparison of a distance with the measure is the comparison of the two
  reals. The two query operations that follow belong to the framework; they are
  modelled by what the module relies on: the exception each one raises, which the
  module's handlers name, and the rows it yields.

  \<^verbatim>\<open>self.filter(location__distance_lte=(point, measure))\<close>: the lookup names the column
  \<^verbatim>\<open>location\<close>, and the framework raises \<^verbatim>\<open>FieldError\<close> when the class has no such
  column; otherwise it keeps the rows within the measure.
\<close>

definition filter_distance_lte ::
  "(Point \<Rightarrow> Point \<Rightarrow> real) \<Rightarrow> 'r manager \<Rightarrow> Point \<Rightarrow> real \<Rightarrow> error + 'r list" where
  "filter_distance_lte geodesic mgr point max_distance =
     (case location_field mgr of
        None \<Rightarrow> Inl FieldError
      | Some loc \<Rightarrow> Inr (filter (\<lambda>r. geodesic (loc r) point \<le> max_distance) (all_rows mgr)))"

text \<open>
  \<^verbatim>\<open>place_candidates.distance(point).order_by('distance')\<close>: the distance annotation
  raises \<^verbatim>\<open>TypeError\<close> on a class without a geometry column; otherwise the
  candidates come back in ascending distance. The backend's order among rows at equal
  distance is not fixed; the model keeps the table order there.
\<close>

definition distance_order_by ::
  "(Point \<Rightarrow> Point \<Rightarrow> real) \<Rightarrow> 'r manager \<Rightarrow> Point \<Rightarrow> 'r list \<Rightarrow> error + 'r list" where
  "distance_order_by geodesic mgr point place_candidates =
     (case location_field mgr of
        None \<Rightarrow> Inl TypeError
      | Some loc \<Rightarrow> Inr (sort_key (\<lambda>r. geodesic (loc r) point) place_candidates))"

text \<open>
  \<^verbatim>\<open>PlaceManager.nearest_to\<close>. The guard \<^verbatim>\<open>if range_in_miles:\<close> is Python
  truthiness: \<^verbatim>\<open>None\<close> and \<^verbatim>\<open>0\<close> are false, every other integer is true. The
  argument \<^verbatim>\<open>D(mi=range_in_miles)\<close> is evaluated before \<^verbatim>\<open>filter\<close> is called, and
  the handler around the call names \<^verbatim>\<open>FieldError\<close> only, so the \<^verbatim>\<open>OverflowError\<close>
  of the conversion leaves the method. The \<^verbatim>\<open>FieldError\<close> of the filter is logged and
  raised again, the \<^verbatim>\<open>TypeError\<close> of the distance call is logged and re-raised, and
  the \<^verbatim>\<open>IndexError\<close> of \<^verbatim>\<open>[0]\<close> on an empty result becomes the value \<^verbatim>\<open>None\<close>.
\<close>

definition nearest_to ::
  "(Point \<Rightarrow> Point \<Rightarrow> real) \<Rightarrow> 'r manager \<Rightarrow> Point \<Rightarrow> int option \<Rightarrow> error + 'r option" where
  "nearest_to geodesic mgr point range_in_miles =
     (case (case range_in_miles of
              None \<Rightarrow> Inr (all_rows mgr)
            | Some miles \<Rightarrow>
                if miles \<noteq> 0
                then (case D_mi miles of
                        Inl e \<Rightarrow> Inl e
                      | Inr max_distance \<Rightarrow> filter_distance_lte geodesic mgr point max_distance)
                else Inr (all_rows mgr)) of
        Inl e \<Rightarrow> Inl e
      | Inr place_candidates \<Rightarrow>
          (case distance_order_by geodesic mgr point place_candidates of
             Inl e \<Rightarrow> Inl e
           | Inr [] \<Rightarrow> Inr None
           | Inr (nearest # _) \<Rightarrow> Inr (Some nearest)))"

text \<open>
  The call \<^verbatim>\<open>Model.objects.nearest_to(point, range_in_miles)\<close>: the attribute lookup
  on the manager comes first and raises \<^verbatim>\<open>AttributeError\<close> on a manager whose class
  has no such method.
\<close>

definition objects_nearest_to ::
  "(Point \<Rightarrow> Point \<Rightarrow> real) \<Rightarrow> 'r manager \<Rightarrow> Point \<Rightarrow> int option \<Rightarrow> error + 'r option" where
  "objects_nearest_to geodesic mgr point range_in_miles =
     (if has_nearest_to (manager_class mgr)
      then nearest_to geodesic mgr point range_in_miles
      else Inl AttributeError)"

text \<open>
  The managers of the concrete classes. \<^verbatim>\<open>City\<close> and \<^verbatim>\<open>District\<close> inherit
  \<^verbatim>\<open>objects = PlaceManager()\<close> and declare \<^verbatim>\<open>location = models.PointField()\<close>;
  \<^verbatim>\<open>Region\<close> and \<^verbatim>\<open>Subregion\<close> have managers derived from \<^verbatim>\<open>PlaceManager\<close>
  and no geometry column; \<^verbatim>\<open>PostalCode\<close> declares \<^verbatim>\<open>location\<close> and replaces the
  inherited manager by \<^verbatim>\<open>objects = models.GeoManager()\<close>. The argument is the table's
  content.
\<close>

definition City_objects :: "City list \<Rightarrow> City manager" where
  "City_objects table =
     \<lparr>manager_class = PlaceManager, all_rows = table, location_field = Some City.location\<rparr>"

definition District_objects :: "District list \<Rightarrow> District manager" where
  "District_objects table =
     \<lparr>manager_class = PlaceManager, all_rows = table, location_field = Some District.location\<rparr>"

definition Region_objects :: "Region list \<Rightarrow> Region manager" where
  "Region_objects table =
     \<lparr>manager_class = RegionManager, all_rows = table, location_field = None\<rparr>"

definition Subregion_objects :: "Subregion list \<Rightarrow> Subregion manager" where
  "Subregion_objects table =
     \<lparr>manager_class = SubregionManager, all_rows = table, location_field = None\<rparr>"

definition PostalCode_objects :: "PostalCode list \<Rightarrow> PostalCode manager" where
  "PostalCode_objects table =
     \<lparr>manager_class = GeoManager, all_rows = table, location_field = Some PostalCode.location\<rparr>"

section \<open>\<^verbatim>\<open>CountryManager\<close>\<close>

text \<open>
  \<^verbatim>\<open>CountryManager.nearest_to\<close> asks \<^verbatim>\<open>City.objects\<close> and returns
  \<^verbatim>\<open>nearest_city.country if nearest_city else None\<close>. A model instance is always
  true, so the test separates a city from \<^verbatim>\<open>None\<close>. An exception of the city
  lookup is not caught here.
\<close>

definition CountryManager_nearest_to ::
  "(Point \<Rightarrow> Point \<Rightarrow> real) \<Rightarrow> City list \<Rightarrow> Point \<Rightarrow> int option \<Rightarrow> error + Country option" where
  "CountryManager_nearest_to geodesic cities point range_in_miles =
     (case nearest_to geodesic (City_objects cities) point range_in_miles of
        Inl e \<Rightarrow> Inl e
      | Inr None \<Rightarrow> Inr None
      | Inr (Some nearest_city) \<Rightarrow> Inr (Some (City.country nearest_city)))"

text \<open>
  The reference behaviour the specification gives for the country lookup: run the city
  lookup with the same point and radius, then read that city's country.
\<close>

definition country_of_nearest_city ::
  "(Point \<Rightarrow> Point \<Rightarrow> real) \<Rightarrow> City list \<Rightarrow> Point \<Rightarrow> int option \<Rightarrow> error + Country option" where
  "country_of_nearest_city geodesic cities point range_in_miles =
     map_sum id (map_option City.country)
       (nearest_to geodesic (City_objects cities) point range_in_miles)"

section \<open>The parent chain\<close>

text \<open>
  \<^verbatim>\<open>hierarchy\<close> is defined once on the abstract class and walks the \<^verbatim>\<open>parent\<close>
  property, which every concrete class overrides. An instance of any concrete class is
  a value of the tagged union \<open>place\<close>.
\<close>

datatype place =
    PCountry Country
  | PRegion Region
  | PSubregion Subregion
  | PCity City
  | PDistrict District
  | PPostalCode PostalCode

fun parent :: "place \<Rightarrow> place option" where
  "parent (PCountry c) = None"
| "parent (PRegion r) = Some (PCountry (Region.country r))"
| "parent (PSubregion s) = Some (PRegion (Subregion.region s))"
| "parent (PCity c) = map_option PRegion (City.region c)"
| "parent (PDistrict d) = Some (PCity (District.city d))"
| "parent (PPostalCode p) = Some (PCountry (PostalCode.country p))"

text \<open>The depth of a class in the schema; it bounds the walk.\<close>

fun level :: "place \<Rightarrow> nat" where
  "level (PCountry c) = 0"
| "level (PRegion r) = 1"
| "level (PSubregion s) = 2"
| "level (PCity c) = 2"
| "level (PDistrict d) = 3"
| "level (PPostalCode p) = 1"

text \<open>
  \<^verbatim>\<open>list = self.parent.hierarchy if self.parent else []; list.append(self)\<close>. The
  list is built afresh by every call, so the append touches no shared value.
\<close>

function hierarchy :: "place \<Rightarrow> place list" where
  "hierarchy self = (case parent self of None \<Rightarrow> [] | Some p \<Rightarrow> hierarchy p) @ [self]"
  by pat_completeness auto
termination
proof (relation "measure level")
  show "wf (measure level)" by simp
next
  fix self p
  assume "parent self = Some p"
  then show "(p, self) \<in> measure level"
    by (cases self) auto
qed

declare hierarchy.simps [simp del]

section \<open>Full codes\<close>

text \<open>\<^verbatim>\<open>sep.join(parts)\<close> on strings.\<close>

fun str_join :: "string \<Rightarrow> string list \<Rightarrow> string" where
  "str_join sep [] = []"
| "str_join sep [x] = x"
| "str_join sep (x # y # ys) = x @ sep @ str_join sep (y # ys)"

text \<open>
  \<^verbatim>\<open>Region.full_code\<close> joins \<^verbatim>\<open>[self.parent.code, self.code]\<close> and
  \<^verbatim>\<open>Subregion.full_code\<close> joins
  \<^verbatim>\<open>[self.parent.parent.code, self.parent.code, self.code]\<close>, where
  \<^verbatim>\<open>Region.parent\<close> is the country and \<^verbatim>\<open>Subregion.parent\<close> is the region.
\<close>

definition Region_parent :: "Region \<Rightarrow> Country" where
  "Region_parent self = Region.country self"

definition Subregion_parent :: "Subregion \<Rightarrow> Region" where
  "Subregion_parent self = Subregion.region self"

definition Region_full_code :: "Region \<Rightarrow> string" where
  "Region_full_code self = str_join ''.'' [Country.code (Region_parent self), Region.code self]"

definition Subregion_full_code :: "Subregion \<Rightarrow> string" where
  "Subregion_full_code self =
     str_join ''.''
       [Country.code (Region_parent (Subregion_parent self)),
        Region.code (Subregion_parent self),
        Subregion.code self]"

section \<open>The full-code index builders\<close>

text \<open>
  \<^verbatim>\<open>queryset = queryset or self.all()\<close>: the left operand is false when it is
  \<^verbatim>\<open>None\<close> and also when it is a query set that yields no row.
  \<^verbatim>\<open>select_related\<close> loads the ancestors with the rows and changes neither the rows
  nor their order. The dictionary comprehension stores the rows in turn under their
  full codes, a later row replacing an earlier one with the same key.
\<close>

definition queryset_or_all :: "'r manager \<Rightarrow> 'r list option \<Rightarrow> 'r list" where
  "queryset_or_all self queryset =
     (case queryset of None \<Rightarrow> all_rows self | Some q \<Rightarrow> if q = [] then all_rows self else q)"

definition dict_by :: "('r \<Rightarrow> string) \<Rightarrow> 'r list \<Rightarrow> (string \<rightharpoonup> 'r)" where
  "dict_by key rows = fold (\<lambda>r index. index(key r \<mapsto> r)) rows Map.empty"

definition RegionManager_get_full_index ::
  "Region manager \<Rightarrow> Region list option \<Rightarrow> (string \<rightharpoonup> Region)" where
  "RegionManager_get_full_index self queryset =
     (let regions = queryset_or_all self queryset in dict_by Region_full_code regions)"

definition SubregionManager_get_full_index ::
  "Subregion manager \<Rightarrow> Subregion list option \<Rightarrow> (string \<rightharpoonup> Subregion)" where
  "SubregionManager_get_full_index self queryset =
     (let subregions = queryset_or_all self queryset in dict_by Subregion_full_code subregions)"

section \<open>Example rows\<close>

text \<open>
  Concrete rows at which the operations are evaluated below. A point is longitude and
  latitude in degrees. The example cities and the query point \<open>Point 11 49\<close> lie on one
  meridian, where the geodesic distance is 69 miles to the degree of latitude to within
  a mile; \<open>sample_miles\<close> is that distance, taken along the axes.
\<close>

definition sample_miles :: "Point \<Rightarrow> Point \<Rightarrow> real" where
  "sample_miles a b = 69 * (\<bar>point_x a - point_x b\<bar> + \<bar>point_y a - point_y b\<bar>)"

definition germany :: Country where
  "germany = \<lparr>name = ''Germany'', slug = ''germany'', Country.code = ''DE'', code3 = ''DEU''\<rparr>"

definition bavaria :: Region where
  "bavaria = \<lparr>name = ''Bavaria'', slug = ''bavaria'', Region.name_std = ''Bayern'', Region.code = ''02'',
     Region.country = germany\<rparr>"

definition upper_bavaria :: Subregion where
  "upper_bavaria = \<lparr>name = ''Upper Bavaria'', slug = ''upper-bavaria'',
     Subregion.name_std = ''Oberbayern'', Subregion.code = ''091'', Subregion.region = bavaria\<rparr>"

definition munich :: City where
  "munich = \<lparr>name = ''Munich'', slug = ''munich'', City.name_std = ''Muenchen'',
     City.location = Point 11 47, City.region = Some bavaria, subregion = Some upper_bavaria,
     City.country = germany\<rparr>"

definition nuremberg :: City where
  "nuremberg = \<lparr>name = ''Nuremberg'', slug = ''nuremberg'', City.name_std = ''Nuernberg'',
     City.location = Point 11 50, City.region = Some bavaria, subregion = None, City.country = germany\<rparr>"

definition freistaat :: Region where
  "freistaat = \<lparr>name = ''Freistaat Bayern'', slug = ''freistaat-bayern'',
     Region.name_std = ''Bayern'', Region.code = ''02'', Region.country = germany\<rparr>"

definition schwabing :: District where
  "schwabing = \<lparr>name = ''Schwabing'', slug = ''schwabing'', District.name_std = ''Schwabing'',
     District.location = Point 11 47, city = munich\<rparr>"

definition postcode_80331 :: PostalCode where
  "postcode_80331 = \<lparr>name = ''Muenchen'', slug = ''80331'', PostalCode.code = ''80331'',
     PostalCode.location = Point 11 47, PostalCode.country = germany\<rparr>"

definition saxony :: Region where
  "saxony = \<lparr>name = ''Saxony'', slug = ''saxony'',
     Region.name_std = ''Sachsen'', Region.code = ''13'', Region.country = germany\<rparr>"

section \<open>Auxiliary facts\<close>

subsection \<open>Sorting by distance and the lookup on a class with a location\<close>

lemma sort_key_head:
  assumes "sort_key f xs = y # ys"
  shows "y \<in> set xs \<and> (\<forall>x\<in>set xs. f y \<le> f x)"
proof -
  have s: "set (y # ys) = set xs"
    using assms by (metis set_sort)
  have "sorted (map f (y # ys))"
    using assms by (metis sorted_sort_key)
  then have "\<forall>x\<in>set ys. f y \<le> f x" by simp
  with s show ?thesis by auto
qed

lemma sort_key_Nil: "sort_key f xs = [] \<longleftrightarrow> xs = []"
  by (metis length_sort length_0_conv)

lemma nearest_to_None_eq:
  "location_field mgr = Some loc \<Longrightarrow>
   nearest_to g mgr p None =
     Inr (case sort_key (\<lambda>r. g (loc r) p) (all_rows mgr) of [] \<Rightarrow> None | r # _ \<Rightarrow> Some r)"
  by (simp add: nearest_to_def distance_order_by_def split: list.splits)

lemma nearest_to_Some_eq:
  "location_field mgr = Some loc \<Longrightarrow> miles \<noteq> 0 \<Longrightarrow> D_mi miles = Inr max_distance \<Longrightarrow>
   nearest_to g mgr p (Some miles) =
     Inr (case sort_key (\<lambda>r. g (loc r) p)
                 (filter (\<lambda>r. g (loc r) p \<le> max_distance) (all_rows mgr)) of
            [] \<Rightarrow> None | r # _ \<Rightarrow> Some r)"
  by (simp add: nearest_to_def distance_order_by_def filter_distance_lte_def split: list.splits)

text \<open>
  With a radius other than 0 that converts to the measure \<open>max_distance\<close>, the lookup on a
  class with a location column returns a row only if it is within the measure, and
  \<^verbatim>\<open>None\<close> when no row is.
\<close>

lemma nearest_to_within_radius:
  assumes "location_field mgr = Some loc" and "miles \<noteq> 0" and "D_mi miles = Inr max_distance"
  shows "(\<forall>r. nearest_to g mgr p (Some miles) = Inr (Some r) \<longrightarrow>
            r \<in> set (all_rows mgr) \<and> g (loc r) p \<le> max_distance) \<and>
         ((\<forall>r\<in>set (all_rows mgr). \<not> g (loc r) p \<le> max_distance) \<longrightarrow>
            nearest_to g mgr p (Some miles) = Inr None)"
proof (cases "sort_key (\<lambda>r. g (loc r) p) (filter (\<lambda>r. g (loc r) p \<le> max_distance) (all_rows mgr))")
  case Nil
  with assms show ?thesis by (simp add: nearest_to_Some_eq)
next
  case (Cons r rs)
  from sort_key_head [OF Cons]
  have "r \<in> set (all_rows mgr)" and "g (loc r) p \<le> max_distance"
    by simp_all
  with assms Cons show ?thesis by (auto simp add: nearest_to_Some_eq)
qed

subsection \<open>The conversion of the radius\<close>

lemma bit_length_0: "bit_length 0 = 0"
  by (simp add: bit_length.simps [of 0])

lemma bit_length_le: "a < 2 ^ k \<Longrightarrow> bit_length a \<le> k"
proof (induction k arbitrary: a)
  case 0
  then show ?case by (simp add: bit_length_0)
next
  case (Suc k)
  show ?case
  proof (cases "a = 0")
    case True
    then show ?thesis by (simp add: bit_length_0)
  next
    case False
    from Suc.prems have "a div 2 < 2 ^ k" by simp
    from Suc.IH [OF this] False show ?thesis by (simp add: bit_length.simps [of a])
  qed
qed

lemma float_of_int_exact:
  assumes "\<bar>n\<bar> < 2 ^ 53"
  shows "float_of_int n = Inr (of_int n)"
proof -
  have "nat \<bar>n\<bar> < 2 ^ 53" using assms by (simp add: nat_less_iff)
  then have b: "bit_length (nat \<bar>n\<bar>) - 53 = 0" using bit_length_le [of "nat \<bar>n\<bar>" 53] by simp
  have "(2::int) ^ 53 \<le> 2 ^ 1024 - 2 ^ 970" by simp
  with assms have "\<not> 2 ^ 1024 - 2 ^ 970 \<le> \<bar>n\<bar>" by linarith
  with b show ?thesis by (simp add: float_of_int_def)
qed

lemma D_mi_overflow: "2 ^ 1024 - 2 ^ 970 \<le> \<bar>n\<bar> \<Longrightarrow> D_mi n = Inl OverflowError"
  by (simp add: D_mi_def float_of_int_def)

lemma D_mi_value: "\<bar>n\<bar> < 2 ^ 1024 - 2 ^ 970 \<Longrightarrow> \<exists>max_distance. D_mi n = Inr max_distance"
  by (simp add: D_mi_def float_of_int_def Let_def)

lemma D_mi_exact: "\<bar>n\<bar> < 2 ^ 53 \<Longrightarrow> D_mi n = Inr (of_int n)"
  by (simp add: D_mi_def float_of_int_exact)

subsection \<open>The parent chain, class by class\<close>

lemma hierarchy_PCountry: "hierarchy (PCountry c) = [PCountry c]"
  by (simp add: hierarchy.simps)

lemma hierarchy_PRegion: "hierarchy (PRegion r) = [PCountry (Region.country r), PRegion r]"
  by (simp add: hierarchy.simps [of "PRegion r"] hierarchy_PCountry)

lemma hierarchy_PSubregion:
  "hierarchy (PSubregion s) =
     [PCountry (Region.country (Subregion.region s)), PRegion (Subregion.region s), PSubregion s]"
  by (simp add: hierarchy.simps [of "PSubregion s"] hierarchy_PRegion)

lemma hierarchy_PCity:
  "hierarchy (PCity c) =
     (case City.region c of
        None \<Rightarrow> [PCity c]
      | Some r \<Rightarrow> [PCountry (Region.country r), PRegion r, PCity c])"
  by (simp add: hierarchy.simps [of "PCity c"] hierarchy_PRegion split: option.splits)

lemma hierarchy_PDistrict:
  "hierarchy (PDistrict d) = hierarchy (PCity (District.city d)) @ [PDistrict d]"
  by (simp add: hierarchy.simps [of "PDistrict d"])

lemma hierarchy_PPostalCode:
  "hierarchy (PPostalCode p) = [PCountry (PostalCode.country p), PPostalCode p]"
  by (simp add: hierarchy.simps [of "PPostalCode p"] hierarchy_PCountry)

lemma hierarchy_level: "x \<in> set (hierarchy self) \<Longrightarrow> level x \<le> level self"
proof (induction self arbitrary: x rule: hierarchy.induct)
  case (1 self)
  show ?case
  proof (cases "parent self")
    case None
    with "1.prems" show ?thesis by (simp add: hierarchy.simps [of self])
  next
    case (Some q)
    have lt: "level q < level self" using Some by (cases self) auto
    from "1.prems" Some have "x = self \<or> x \<in> set (hierarchy q)"
      by (auto simp add: hierarchy.simps [of self])
    then show ?thesis
    proof
      assume "x = self" then show ?thesis by simp
    next
      assume "x \<in> set (hierarchy q)"
      from "1.IH" [OF Some this] lt show ?thesis by simp
    qed
  qed
qed

lemma hierarchy_chain_aux:
  "hierarchy self \<noteq> [] \<and> last (hierarchy self) = self \<and>
   parent (hd (hierarchy self)) = None \<and>
   (\<forall>i. Suc i < length (hierarchy self) \<longrightarrow>
        parent (hierarchy self ! Suc i) = Some (hierarchy self ! i)) \<and>
   distinct (hierarchy self)"
proof (induction self rule: hierarchy.induct)
  case (1 self)
  show ?case
  proof (cases "parent self")
    case None
    then show ?thesis by (simp add: hierarchy.simps [of self])
  next
    case (Some q)
    let ?h = "hierarchy q"
    have eq: "hierarchy self = ?h @ [self]"
      using Some by (simp add: hierarchy.simps [of self])
    from "1.IH" [OF Some] have ne: "?h \<noteq> []" and la: "last ?h = q"
      and hd: "parent (hd ?h) = None"
      and ch: "\<forall>i. Suc i < length ?h \<longrightarrow> parent (?h ! Suc i) = Some (?h ! i)"
      and di: "distinct ?h" by simp_all
    have lt: "level q < level self" using Some by (cases self) auto
    have notin: "self \<notin> set ?h"
    proof
      assume "self \<in> set ?h"
      from hierarchy_level [OF this] lt show False by simp
    qed
    have chain: "\<forall>i. Suc i < length (?h @ [self]) \<longrightarrow>
        parent ((?h @ [self]) ! Suc i) = Some ((?h @ [self]) ! i)"
    proof (intro allI impI)
      fix i assume i: "Suc i < length (?h @ [self])"
      show "parent ((?h @ [self]) ! Suc i) = Some ((?h @ [self]) ! i)"
      proof (cases "Suc i < length ?h")
        case True
        with ch show ?thesis by (simp add: nth_append)
      next
        case False
        with i have len: "Suc i = length ?h" by simp
        then have "i = length ?h - 1" by simp
        then have "?h ! i = last ?h" using ne by (simp add: last_conv_nth)
        with len la Some show ?thesis by (simp add: nth_append)
      qed
    qed
    from ne hd di notin chain show ?thesis by (simp add: eq)
  qed
qed

subsection \<open>The dictionary built from a list of rows\<close>

lemma dict_by_snoc: "dict_by key (rows @ [r]) = (dict_by key rows)(key r \<mapsto> r)"
  by (simp add: dict_by_def)

lemma dict_by_Nil: "dict_by key [] = Map.empty"
  by (simp add: dict_by_def)

lemma dom_dict_by: "dom (dict_by key rows) = key ` set rows"
proof (induction rows rule: rev_induct)
  case Nil
  show ?case by (simp add: dict_by_Nil)
next
  case (snoc x xs)
  have "dom (dict_by key (xs @ [x])) = insert (key x) (dom (dict_by key xs))"
    by (simp only: dict_by_snoc dom_fun_upd option.distinct if_False)
  with snoc show ?case by simp
qed

lemma dict_by_Some: "dict_by key rows k = Some r \<Longrightarrow> r \<in> set rows \<and> key r = k"
  by (induction rows rule: rev_induct) (auto simp add: dict_by_Nil dict_by_snoc split: if_splits)

lemma dict_by_distinct:
  "distinct (map key rows) \<Longrightarrow> r \<in> set rows \<Longrightarrow> dict_by key rows (key r) = Some r"
proof (induction rows rule: rev_induct)
  case Nil
  then show ?case by simp
next
  case (snoc x xs)
  then have fresh: "key x \<notin> key ` set xs" and d: "distinct (map key xs)" by simp_all
  show ?case
  proof (cases "r = x")
    case True
    then show ?thesis by (simp add: dict_by_snoc)
  next
    case False
    with snoc.prems have r: "r \<in> set xs" by simp
    with fresh have "key r \<noteq> key x" by (metis imageI)
    with snoc.IH [OF d r] show ?thesis by (simp add: dict_by_snoc)
  qed
qed

lemma card_image_le_length: "card (key ` set rows) \<le> length rows"
proof -
  have "card (key ` set rows) \<le> card (set rows)" by (rule card_image_le) simp
  also have "\<dots> \<le> length rows" by (rule card_length)
  finally show ?thesis .
qed

lemma card_image_distinct: "distinct (map key rows) \<Longrightarrow> card (key ` set rows) = length rows"
  using distinct_card [of "map key rows"] by simp

lemma dict_by_nonempty: "rows \<noteq> [] \<Longrightarrow> dict_by key rows \<noteq> Map.empty"
proof
  assume ne: "rows \<noteq> []" and "dict_by key rows = Map.empty"
  then have "dom (dict_by key rows) = {}" by simp
  then have "key ` set rows = {}" by (simp only: dom_dict_by)
  with ne show False by simp
qed

lemma dict_by_props:
  "dom (dict_by key rows) = key ` set rows \<and>
   (\<forall>k r. dict_by key rows k = Some r \<longrightarrow> r \<in> set rows \<and> key r = k) \<and>
   card (dom (dict_by key rows)) \<le> length rows \<and>
   (distinct (map key rows) \<longrightarrow>
      card (dom (dict_by key rows)) = length rows \<and>
      (\<forall>r\<in>set rows. dict_by key rows (key r) = Some r))"
  using dict_by_Some [of key rows] dict_by_distinct [of key rows]
  by (simp add: dom_dict_by card_image_le_length card_image_distinct)

section \<open>The claims\<close>

text \<open>
  Claim C1, evaluated at the input where the code departs from it. The table of cities
  holds one city, 138 miles from the query point, and the radius is 0. No city lies
  within 0 miles of the point, so the claim (and the docstring: if nothing is found
  within the mileage specified, the result is \<^verbatim>\<open>None\<close>) asks for \<^verbatim>\<open>None\<close>; the guard
  \<^verbatim>\<open>if range_in_miles:\<close> is false at 0, no filter is applied, and the call returns
  that city.
\<close>

theorem nearest_to_radius_zero_far_city:
  "objects_nearest_to sample_miles (City_objects [munich]) (Point 11 49) (Some 0)
     = Inr (Some munich) \<and>
   sample_miles (City.location munich) (Point 11 49) = 138 \<and>
   \<not> sample_miles (City.location munich) (Point 11 49) \<le> of_int 0"
  by (simp add: objects_nearest_to_def City_objects_def nearest_to_def distance_order_by_def
      sample_miles_def munich_def)

text \<open>
  Claim C2, as amended. On a class with a location column whose manager has the method
  \<^verbatim>\<open>nearest_to\<close> (\<^verbatim>\<open>City\<close> and \<^verbatim>\<open>District\<close>), the call \<^verbatim>\<open>nearest_to(point)\<close>
  without a radius returns \<^verbatim>\<open>None\<close> exactly when the table is empty, and never an
  error; on a table with rows it returns a row of the table whose distance to the point
  is minimal among all rows.
\<close>

theorem nearest_to_unbounded:
  assumes "has_nearest_to (manager_class mgr)" and "location_field mgr = Some loc"
  shows "(objects_nearest_to g mgr p None = Inr None \<longleftrightarrow> all_rows mgr = []) \<and>
   (all_rows mgr \<noteq> [] \<longrightarrow>
      (\<exists>r. objects_nearest_to g mgr p None = Inr (Some r) \<and> r \<in> set (all_rows mgr) \<and>
           (\<forall>r'\<in>set (all_rows mgr). g (loc r) p \<le> g (loc r') p)))"
proof -
  have eq: "objects_nearest_to g mgr p None = nearest_to g mgr p None"
    using assms(1) by (simp add: objects_nearest_to_def)
  show ?thesis
  proof (cases "sort_key (\<lambda>r. g (loc r) p) (all_rows mgr)")
    case Nil
    then have "all_rows mgr = []" by (simp add: sort_key_Nil)
    with assms(2) show ?thesis by (simp add: eq nearest_to_None_eq)
  next
    case (Cons r rs)
    then have ne: "all_rows mgr \<noteq> []" by (metis sort_key_Nil list.distinct(1))
    from sort_key_head [OF Cons]
    have "r \<in> set (all_rows mgr)" and "\<forall>r'\<in>set (all_rows mgr). g (loc r) p \<le> g (loc r') p"
      by simp_all
    with assms(2) Cons ne show ?thesis by (simp add: eq nearest_to_None_eq)
  qed
qed

text \<open>
  Claim C2, witness: of two cities 138 and 69 miles from the query point the lookup
  returns the second.
\<close>

theorem nearest_to_unbounded_witness:
  "has_nearest_to (manager_class (City_objects [munich, nuremberg])) \<and>
   location_field (City_objects [munich, nuremberg]) = Some City.location \<and>
   objects_nearest_to sample_miles (City_objects [munich, nuremberg]) (Point 11 49) None
     = Inr (Some nuremberg)"
  using nearest_to_unbounded [of "City_objects [munich, nuremberg]" City.location sample_miles
      "Point 11 49"]
  by (simp add: objects_nearest_to_def City_objects_def nearest_to_def distance_order_by_def
      sample_miles_def munich_def nuremberg_def)

text \<open>
  Claim C2, counterexample to the claim as stated for every class with a location
  column: \<^verbatim>\<open>PostalCode\<close> has the column, but its manager is a \<^verbatim>\<open>GeoManager\<close>, which
  has no method \<^verbatim>\<open>nearest_to\<close>; the call raises \<^verbatim>\<open>AttributeError\<close>, on a table with
  a row and on the empty table alike.
\<close>

theorem postal_code_nearest_to_counterexample:
  "location_field (PostalCode_objects [postcode_80331]) = Some PostalCode.location \<and>
   objects_nearest_to sample_miles (PostalCode_objects [postcode_80331]) (Point 11 49) None
     = Inl AttributeError \<and>
   objects_nearest_to sample_miles (PostalCode_objects []) (Point 11 49) None
     = Inl AttributeError"
  by (simp add: objects_nearest_to_def PostalCode_objects_def)

text \<open>
  Claim C3, as amended. On a class without a location column whose manager inherits
  \<^verbatim>\<open>PlaceManager.nearest_to\<close> (\<^verbatim>\<open>Region\<close> and \<^verbatim>\<open>Subregion\<close>), the call with a
  radius other than 0 raises \<^verbatim>\<open>FieldError\<close> when the radius converts to a float, that
  is when its magnitude is below \<open>2 ^ 1024 - 2 ^ 970\<close>, and \<^verbatim>\<open>OverflowError\<close> when it
  does not.
\<close>

theorem nearest_to_no_location:
  assumes "has_nearest_to (manager_class mgr)" and "location_field mgr = None"
    and "miles \<noteq> 0"
  shows "(\<bar>miles\<bar> < 2 ^ 1024 - 2 ^ 970 \<longrightarrow>
            objects_nearest_to g mgr p (Some miles) = Inl FieldError) \<and>
         (2 ^ 1024 - 2 ^ 970 \<le> \<bar>miles\<bar> \<longrightarrow>
            objects_nearest_to g mgr p (Some miles) = Inl OverflowError)"
proof (intro conjI impI)
  assume "\<bar>miles\<bar> < 2 ^ 1024 - 2 ^ 970"
  from D_mi_value [OF this] obtain max_distance where "D_mi miles = Inr max_distance" ..
  with assms show "objects_nearest_to g mgr p (Some miles) = Inl FieldError"
    by (simp add: objects_nearest_to_def nearest_to_def filter_distance_lte_def)
next
  assume "2 ^ 1024 - 2 ^ 970 \<le> \<bar>miles\<bar>"
  from D_mi_overflow [OF this] assms
  show "objects_nearest_to g mgr p (Some miles) = Inl OverflowError"
    by (simp add: objects_nearest_to_def nearest_to_def)
qed

text \<open>
  Claim C3, witness: the region manager with a radius of 100 miles, and with a radius
  of \<open>10 ^ 309\<close> miles.
\<close>

theorem nearest_to_no_location_witness:
  "has_nearest_to (manager_class (Region_objects [bavaria])) \<and>
   location_field (Region_objects [bavaria]) = None \<and>
   (100::int) \<noteq> 0 \<and> \<bar>100::int\<bar> < 2 ^ 1024 - 2 ^ 970 \<and>
   objects_nearest_to sample_miles (Region_objects [bavaria]) (Point 11 49) (Some 100)
     = Inl FieldError \<and>
   (10::int) ^ 309 \<noteq> 0 \<and> 2 ^ 1024 - 2 ^ 970 \<le> \<bar>(10::int) ^ 309\<bar> \<and>
   objects_nearest_to sample_miles (Region_objects [bavaria]) (Point 11 49) (Some (10 ^ 309))
     = Inl OverflowError"
  using nearest_to_no_location [of "Region_objects [bavaria]" 100 sample_miles "Point 11 49"]
    nearest_to_no_location [of "Region_objects [bavaria]" "10 ^ 309" sample_miles "Point 11 49"]
  by (simp add: Region_objects_def)

text \<open>
  Claim C3, counterexample to the claim as stated for every class without a location
  column and every supplied radius: \<^verbatim>\<open>Country\<close> has no location column, and its
  manager answers a lookup with a radius of 500 miles through the city table, returning
  the country of a city 138 miles away; and on \<^verbatim>\<open>Region\<close> a radius of \<open>10 ^ 309\<close>
  miles raises \<^verbatim>\<open>OverflowError\<close>, not \<^verbatim>\<open>FieldError\<close>.
\<close>

theorem nearest_to_no_location_counterexample:
  "CountryManager_nearest_to sample_miles [munich] (Point 11 49) (Some 500)
     = Inr (Some germany) \<and>
   location_field (Region_objects [bavaria]) = None \<and>
   objects_nearest_to sample_miles (Region_objects [bavaria]) (Point 11 49) (Some (10 ^ 309))
     = Inl OverflowError"
proof -
  have c: "CountryManager_nearest_to sample_miles [munich] (Point 11 49) (Some 500)
      = Inr (Some germany)"
    by (simp add: CountryManager_nearest_to_def City_objects_def nearest_to_def D_mi_exact
        filter_distance_lte_def distance_order_by_def sample_miles_def munich_def)
  have o: "D_mi (10 ^ 309) = Inl OverflowError"
    by (rule D_mi_overflow) simp
  have r: "objects_nearest_to sample_miles (Region_objects [bavaria]) (Point 11 49)
      (Some (10 ^ 309)) = Inl OverflowError"
    using o by (simp add: objects_nearest_to_def Region_objects_def nearest_to_def)
  from c r show ?thesis by (simp add: Region_objects_def)
qed

text \<open>
  Claim C4. For every point and optional radius, \<^verbatim>\<open>CountryManager.nearest_to\<close> returns
  what the city lookup with the same point and radius returns, with the city replaced
  by its country, and it returns \<^verbatim>\<open>None\<close> exactly when the city lookup does.
\<close>

theorem country_nearest_to_refines:
  "CountryManager_nearest_to g cities p range_in_miles =
     country_of_nearest_city g cities p range_in_miles \<and>
   (CountryManager_nearest_to g cities p range_in_miles = Inr None \<longleftrightarrow>
      nearest_to g (City_objects cities) p range_in_miles = Inr None)"
  by (simp add: CountryManager_nearest_to_def country_of_nearest_city_def
      split: sum.splits option.splits)

text \<open>
  Claim C5. For every place, \<^verbatim>\<open>hierarchy\<close> is a non-empty list that ends with the
  place itself, begins with a place that has no parent, has each element's parent as
  the preceding element, and repeats no element. For a city the first element is the
  country of its region, or the city itself when it has no region, and the last element
  is the city.
\<close>

theorem hierarchy_root_to_self:
  "hierarchy self \<noteq> [] \<and> last (hierarchy self) = self \<and>
   parent (hd (hierarchy self)) = None \<and>
   (\<forall>i. Suc i < length (hierarchy self) \<longrightarrow>
        parent (hierarchy self ! Suc i) = Some (hierarchy self ! i)) \<and>
   distinct (hierarchy self) \<and>
   hd (hierarchy (PCity c)) =
     (case City.region c of None \<Rightarrow> PCity c | Some r \<Rightarrow> PCountry (Region.country r)) \<and>
   last (hierarchy (PCity c)) = PCity c"
  using hierarchy_chain_aux [of self]
  by (simp add: hierarchy_PCity split: option.splits)

text \<open>
  Claim C5, witness: the hierarchy of a district has four elements, and the parent of
  the fourth is the third.
\<close>

theorem hierarchy_root_to_self_witness:
  "Suc 2 < length (hierarchy (PDistrict schwabing)) \<and>
   parent (hierarchy (PDistrict schwabing) ! Suc 2) = Some (hierarchy (PDistrict schwabing) ! 2) \<and>
   hierarchy (PDistrict schwabing) = [PCountry germany, PRegion bavaria, PCity munich, PDistrict schwabing]"
  using hierarchy_root_to_self [of "PDistrict schwabing" munich]
  by (simp add: hierarchy_PDistrict hierarchy_PCity schwabing_def munich_def bavaria_def)

text \<open>
  Claim C6. \<^verbatim>\<open>Region.full_code()\<close> is the country's code, a dot and the region's code;
  \<^verbatim>\<open>Subregion.full_code()\<close> is the country's code, the region's code and the
  subregion's code, in this order, with a dot between them.
\<close>

theorem full_code_dotted:
  "Region_full_code r = Country.code (Region.country r) @ ''.'' @ Region.code r \<and>
   Subregion_full_code s =
     Country.code (Region.country (Subregion.region s)) @ ''.'' @
     Region.code (Subregion.region s) @ ''.'' @ Subregion.code s"
  by (simp add: Region_full_code_def Subregion_full_code_def Region_parent_def Subregion_parent_def)

text \<open>
  Claim C7, as amended. Let the input rows be all rows when no base query is supplied,
  and the rows of the base query when one is supplied that yields at least one row.
  Then the keys of the mapping returned by \<^verbatim>\<open>get_full_index\<close> (of \<^verbatim>\<open>Region\<close> and of
  \<^verbatim>\<open>Subregion\<close>) are exactly the full codes of the input rows, every key is mapped to
  an input row whose full code is that key, and the size of the mapping is at most the
  number of input rows; when the full codes of the input rows are pairwise distinct, the
  size equals the number of input rows and every input row is found under its full code.
\<close>

theorem get_full_index_keys:
  assumes "regions = (case rq of None \<Rightarrow> all_rows rself | Some q \<Rightarrow> q)" and "rq \<noteq> Some []"
    and "subregions = (case sq of None \<Rightarrow> all_rows sself | Some q \<Rightarrow> q)" and "sq \<noteq> Some []"
  shows "dom (RegionManager_get_full_index rself rq) = Region_full_code ` set regions \<and>
   (\<forall>k r. RegionManager_get_full_index rself rq k = Some r \<longrightarrow>
      r \<in> set regions \<and> Region_full_code r = k) \<and>
   card (dom (RegionManager_get_full_index rself rq)) \<le> length regions \<and>
   (distinct (map Region_full_code regions) \<longrightarrow>
      card (dom (RegionManager_get_full_index rself rq)) = length regions \<and>
      (\<forall>r\<in>set regions. RegionManager_get_full_index rself rq (Region_full_code r) = Some r)) \<and>
   dom (SubregionManager_get_full_index sself sq) = Subregion_full_code ` set subregions \<and>
   (\<forall>k s. SubregionManager_get_full_index sself sq k = Some s \<longrightarrow>
      s \<in> set subregions \<and> Subregion_full_code s = k) \<and>
   card (dom (SubregionManager_get_full_index sself sq)) \<le> length subregions \<and>
   (distinct (map Subregion_full_code subregions) \<longrightarrow>
      card (dom (SubregionManager_get_full_index sself sq)) = length subregions \<and>
      (\<forall>s\<in>set subregions.
         SubregionManager_get_full_index sself sq (Subregion_full_code s) = Some s))"
proof -
  have r: "RegionManager_get_full_index rself rq = dict_by Region_full_code regions"
    using assms(1,2)
    by (simp add: RegionManager_get_full_index_def queryset_or_all_def split: option.splits)
  have s: "SubregionManager_get_full_index sself sq = dict_by Subregion_full_code subregions"
    using assms(3,4)
    by (simp add: SubregionManager_get_full_index_def queryset_or_all_def split: option.splits)
  from dict_by_props [of Region_full_code regions] dict_by_props [of Subregion_full_code subregions]
  show ?thesis unfolding r s by blast
qed

text \<open>
  Claim C7, witness: a base query of two regions with distinct full codes, and the
  subregion table of one row with no base query.
\<close>

theorem get_full_index_keys_witness:
  "[bavaria, saxony] = (case Some [bavaria, saxony] of None \<Rightarrow> all_rows (Region_objects []) | Some q \<Rightarrow> q) \<and>
   Some [bavaria, saxony] \<noteq> Some [] \<and>
   [upper_bavaria] = (case None of None \<Rightarrow> all_rows (Subregion_objects [upper_bavaria]) | Some q \<Rightarrow> q) \<and>
   (None :: Subregion list option) \<noteq> Some [] \<and>
   distinct (map Region_full_code [bavaria, saxony]) \<and>
   distinct (map Subregion_full_code [upper_bavaria]) \<and>
   card (dom (RegionManager_get_full_index (Region_objects []) (Some [bavaria, saxony]))) = 2 \<and>
   RegionManager_get_full_index (Region_objects []) (Some [bavaria, saxony]) (Region_full_code saxony)
     = Some saxony \<and>
   card (dom (SubregionManager_get_full_index (Subregion_objects [upper_bavaria]) None)) = 1 \<and>
   SubregionManager_get_full_index (Subregion_objects [upper_bavaria]) None ''DE.02.091''
     = Some upper_bavaria"
proof -
  have d: "distinct (map Region_full_code [bavaria, saxony])"
    by (simp add: Region_full_code_def Region_parent_def bavaria_def saxony_def)
  have u: "Subregion_full_code upper_bavaria = ''DE.02.091''"
    by (simp add: Subregion_full_code_def Subregion_parent_def Region_parent_def
        upper_bavaria_def bavaria_def germany_def)
  from d u
    get_full_index_keys [where regions = "[bavaria, saxony]" and rq = "Some [bavaria, saxony]"
      and rself = "Region_objects []" and subregions = "[upper_bavaria]" and sq = None
      and sself = "Subregion_objects [upper_bavaria]"]
  show ?thesis by (simp add: Subregion_objects_def)
qed

text \<open>
  Claim C7, counterexample to the size of the mapping being the number of input rows:
  two region rows with the same full code give a mapping of size 1, and a base query
  that yields no row over a table of one region gives a mapping of size 1 as well.
\<close>

theorem get_full_index_size_counterexample:
  "card (dom (RegionManager_get_full_index (Region_objects [bavaria, freistaat])
            (Some [bavaria, freistaat]))) = 1 \<and>
   length [bavaria, freistaat] = 2 \<and>
   card (dom (RegionManager_get_full_index (Region_objects [bavaria]) (Some []))) = 1 \<and>
   length ([] :: Region list) = 0"
  by (simp add: RegionManager_get_full_index_def queryset_or_all_def dict_by_def
      Region_objects_def Region_full_code_def Region_parent_def bavaria_def freistaat_def)

text \<open>
  Claim C8. \<^verbatim>\<open>nearest_to(point, 0)\<close> is \<^verbatim>\<open>nearest_to(point)\<close>, for the generic
  manager on every class and for the country manager; in particular it never raises
  \<^verbatim>\<open>FieldError\<close>.
\<close>

theorem nearest_to_zero_radius:
  "nearest_to geodesic mgr point (Some 0) = nearest_to geodesic mgr point None \<and>
   nearest_to geodesic mgr point (Some 0) \<noteq> Inl FieldError \<and>
   CountryManager_nearest_to geodesic cities point (Some 0) =
     CountryManager_nearest_to geodesic cities point None"
  by (simp add: nearest_to_def CountryManager_nearest_to_def distance_order_by_def
      split: option.splits list.splits)

text \<open>
  Claim C9. \<^verbatim>\<open>get_full_index\<close> (of \<^verbatim>\<open>Region\<close> and of \<^verbatim>\<open>Subregion\<close>) called with a
  base query that yields no row returns what it returns with no base query: the index
  of all rows of the table, whose keys are the full codes of all rows and which is not
  the empty mapping when the table has a row.
\<close>

theorem get_full_index_empty_queryset:
  "RegionManager_get_full_index rself (Some []) = RegionManager_get_full_index rself None \<and>
   SubregionManager_get_full_index sself (Some []) = SubregionManager_get_full_index sself None \<and>
   dom (RegionManager_get_full_index rself (Some [])) = Region_full_code ` set (all_rows rself) \<and>
   dom (SubregionManager_get_full_index sself (Some [])) =
     Subregion_full_code ` set (all_rows sself) \<and>
   (all_rows rself \<noteq> [] \<longrightarrow> RegionManager_get_full_index rself (Some []) \<noteq> Map.empty) \<and>
   (all_rows sself \<noteq> [] \<longrightarrow> SubregionManager_get_full_index sself (Some []) \<noteq> Map.empty)"
proof -
  have r: "RegionManager_get_full_index rself (Some []) = dict_by Region_full_code (all_rows rself)"
    by (simp add: RegionManager_get_full_index_def queryset_or_all_def)
  have s: "SubregionManager_get_full_index sself (Some []) =
      dict_by Subregion_full_code (all_rows sself)"
    by (simp add: SubregionManager_get_full_index_def queryset_or_all_def)
  have r0: "RegionManager_get_full_index rself None = dict_by Region_full_code (all_rows rself)"
    by (simp add: RegionManager_get_full_index_def queryset_or_all_def)
  have s0: "SubregionManager_get_full_index sself None =
      dict_by Subregion_full_code (all_rows sself)"
    by (simp add: SubregionManager_get_full_index_def queryset_or_all_def)
  show ?thesis unfolding r s r0 s0
    using dict_by_nonempty [of "all_rows rself" Region_full_code]
      dict_by_nonempty [of "all_rows sself" Subregion_full_code]
    by (simp add: dom_dict_by)
qed

text \<open>
  Claim C9, witness: a region table and a subregion table of one row each.
\<close>

theorem get_full_index_empty_queryset_witness:
  "all_rows (Region_objects [bavaria]) \<noteq> [] \<and>
   all_rows (Subregion_objects [upper_bavaria]) \<noteq> [] \<and>
   RegionManager_get_full_index (Region_objects [bavaria]) (Some []) \<noteq> Map.empty \<and>
   SubregionManager_get_full_index (Subregion_objects [upper_bavaria]) (Some []) \<noteq> Map.empty"
  using get_full_index_empty_queryset [of "Region_objects [bavaria]" "Subregion_objects [upper_bavaria]"]
  by (auto simp add: Region_objects_def Subregion_objects_def)

text \<open>
  Claim C10. The hierarchy of a city is the city alone when it has no region, and
  otherwise the country of its region, its region and the city; no subregion is an
  element of it, whatever the city's subregion column holds.
\<close>

theorem city_hierarchy_skips_subregion:
  "hierarchy (PCity c) =
     (case City.region c of
        None \<Rightarrow> [PCity c]
      | Some r \<Rightarrow> [PCountry (Region.country r), PRegion r, PCity c]) \<and>
   PSubregion s \<notin> set (hierarchy (PCity c)) \<and>
   set (hierarchy (PCity c)) \<subseteq>
     {PCity c} \<union> PRegion ` set_option (City.region c) \<union>
     (\<lambda>r. PCountry (Region.country r)) ` set_option (City.region c)"
  by (auto simp add: hierarchy_PCity split: option.splits)

end
